theory Spec2Isabelle
  imports Main
begin

section \<open>Scripts/export\_coreml.py\<close>

text \<open>
  The repository is one Python module. After the shebang line and the module docstring
  its body is
  \<^verbatim>\<open>
  from ultralytics import YOLO

  model = YOLO("yolo26n.pt")
  model.export(format="coreml", imgsz=640)
  \<close>
  The class \<open>YOLO\<close> and its method \<open>export\<close> belong to the external library, whose
  code is not part of the repository. The import binds the name \<open>YOLO\<close>; the model
  starts where it has succeeded and takes the imported library as a parameter: a value
  of the record \<open>library\<close> below gives the behaviour of the two operations the module
  uses. Nothing is assumed about that behaviour; where a property needs an assumption
  on the library, the theorem states it.
\<close>

subsection \<open>Python values, the file system, the library\<close>

type_synonym path = string

text \<open>The file system, as far as the module can touch it: the contents of each file.\<close>

type_synonym filesystem = "path \<rightharpoonup> string"

datatype pyval = PyStr string | PyInt int

text \<open>Keyword arguments of a call, in the order they are written.\<close>

type_synonym kwargs = "(string \<times> pyval) list"

text \<open>
  An uncaught exception. \<open>Raised d\<close> comes out of a library call, with the library's
  diagnostic \<open>d\<close>; \<open>NameError n\<close> is what the interpreter raises when the module reads
  the global \<open>n\<close> while it is unbound.
\<close>

datatype exn = NameError string | Raised string

text \<open>
  The library as the module sees it. Both operations run on the file system and may
  change it, whether they return or raise: \<open>Inl d\<close> is an error raised by the call,
  with diagnostic \<open>d\<close>, \<open>Inr\<close> a returned value. \<open>'h\<close> is the type of model objects,
  \<open>'r\<close> the type of what \<open>export\<close> returns. An operation is a function of its
  arguments and the file system: the library is the same in every run that the
  theorems compare.
\<close>

record ('h, 'r) library =
  YOLO :: "string \<Rightarrow> filesystem \<Rightarrow> (string + 'h) \<times> filesystem"
  export :: "'h \<Rightarrow> kwargs \<Rightarrow> filesystem \<Rightarrow> (string + 'r) \<times> filesystem"

text \<open>A call the module makes into the library, with the arguments it passes.\<close>

datatype 'h call = Call_YOLO string | Call_export 'h kwargs

subsection \<open>The process\<close>

text \<open>
  How the module was started: the command line, the environment variables, standard
  input, and the value of \<open>__name__\<close> (\<open>"__main__"\<close> when the file is run as a command,
  the module's name when it is imported).
\<close>

record invocation =
  argv :: "string list"
  environ :: "string \<rightharpoonup> string"
  stdin :: string
  dunder_name :: string

text \<open>
  The state of the running process: how it was started, the file system, the module's
  global \<open>model\<close> (\<open>None\<close> while unbound), and the library calls made so far, oldest
  first.
\<close>

record 'h process =
  invoked :: invocation
  files :: filesystem
  model :: "'h option"
  calls :: "'h call list"

text \<open>A statement runs on the process and either completes or raises.\<close>

type_synonym 'h stmt = "'h process \<Rightarrow> exn option \<times> 'h process"

subsection \<open>The two statements\<close>

text \<open>\<^verbatim>\<open>model = YOLO(ckpt)\<close>: the global is bound only when the constructor returns.\<close>

definition assign_model :: "('h, 'r) library \<Rightarrow> string \<Rightarrow> 'h stmt" where
  "assign_model lib ckpt s =
     (case YOLO lib ckpt (files s) of
        (Inl d, fs) \<Rightarrow>
          (Some (Raised d), s\<lparr>files := fs, calls := calls s @ [Call_YOLO ckpt]\<rparr>)
      | (Inr h, fs) \<Rightarrow>
          (None, s\<lparr>files := fs, model := Some h, calls := calls s @ [Call_YOLO ckpt]\<rparr>))"

text \<open>
  \<^verbatim>\<open>model.export(format=fmt, imgsz=imgsz)\<close>, an expression statement: the value the
  method returns is dropped.
\<close>

definition call_export :: "('h, 'r) library \<Rightarrow> string \<Rightarrow> int \<Rightarrow> 'h stmt" where
  "call_export lib fmt imgsz s =
     (case model s of
        None \<Rightarrow> (Some (NameError ''model''), s)
      | Some h \<Rightarrow>
          (let kw = [(''format'', PyStr fmt), (''imgsz'', PyInt imgsz)] in
           case export lib h kw (files s) of
             (Inl d, fs) \<Rightarrow>
               (Some (Raised d), s\<lparr>files := fs, calls := calls s @ [Call_export h kw]\<rparr>)
           | (Inr r, fs) \<Rightarrow>
               (None, s\<lparr>files := fs, calls := calls s @ [Call_export h kw]\<rparr>)))"

text \<open>
  Two statements in a row: an exception of the first ends the run, the second is not
  reached.
\<close>

definition then_do :: "'h stmt \<Rightarrow> 'h stmt \<Rightarrow> 'h stmt" where
  "then_do p q s = (case p s of (Some e, s1) \<Rightarrow> (Some e, s1) | (None, s1) \<Rightarrow> q s1)"

subsection \<open>The module\<close>

definition script :: "('h, 'r) library \<Rightarrow> 'h stmt" where
  "script lib = then_do (assign_model lib ''yolo26n.pt'') (call_export lib ''coreml'' 640)"

text \<open>A process starts with \<open>model\<close> unbound and no call made.\<close>

definition spawn :: "invocation \<Rightarrow> filesystem \<Rightarrow> 'h process" where
  "spawn i fs = \<lparr>invoked = i, files = fs, model = None, calls = []\<rparr>"

definition run :: "('h, 'r) library \<Rightarrow> invocation \<Rightarrow> filesystem \<Rightarrow> exn option \<times> 'h process" where
  "run lib i fs = script lib (spawn i fs)"

text \<open>
  The interpreter's exit status: 0 when the module body completes, 1 when an error
  reaches the top level uncaught.
\<close>

definition exit_status :: "exn option \<Rightarrow> nat" where
  "exit_status r = (case r of None \<Rightarrow> 0 | Some e \<Rightarrow> 1)"

subsection \<open>Stand-ins for the library\<close>

text \<open>
  Concrete libraries and inputs on which the model is run. \<open>stub_library\<close> loads a
  checkpoint only when its file exists, accepts the format \<open>coreml\<close> alone, fails to
  convert an empty checkpoint, and otherwise writes the package beside the checkpoint;
  each of its failures leaves the file system as it was. \<open>leaky_library\<close> differs in
  \<open>export\<close>: it starts writing the package and then raises. \<open>fetching_library\<close>
  differs in the constructor: a checkpoint that is missing is fetched and stored under
  the path before it is loaded.
\<close>

definition stem :: "string \<Rightarrow> string" where
  "stem p = takeWhile (\<lambda>c. c \<noteq> CHR ''.'') p"

definition stub_library :: "(string \<times> string, string) library" where
  "stub_library =
     \<lparr>YOLO = (\<lambda>p fs. case fs p of
                None \<Rightarrow> (Inl (''FileNotFoundError: '' @ p), fs)
              | Some w \<Rightarrow> (Inr (p, w), fs)),
      export = (\<lambda>h kw fs.
                if map_of kw ''format'' \<noteq> Some (PyStr ''coreml'')
                then (Inl ''ValueError: invalid export format'', fs)
                else if snd h = [] then (Inl ''RuntimeError: empty checkpoint'', fs)
                else (Inr (stem (fst h) @ ''.mlpackage''),
                      fs(stem (fst h) @ ''.mlpackage'' \<mapsto> ''coreml:'' @ snd h)))\<rparr>"



definition command_line :: invocation where
  "command_line =
     \<lparr>argv = [''Scripts/export_coreml.py''], environ = Map.empty, stdin = [],
      dunder_name = ''__main__''\<rparr>"

definition no_files :: filesystem where
  "no_files = Map.empty"

definition checkpoint_only :: filesystem where
  "checkpoint_only = [''yolo26n.pt'' \<mapsto> ''weights'']"

definition empty_checkpoint :: filesystem where
  "empty_checkpoint = [''yolo26n.pt'' \<mapsto> []]"

section \<open>How a run goes\<close>

text \<open>
  Two statements one after the other, written out: the constructor is called on the
  files as they are; when it raises the run is over, when it returns \<open>h\<close> the method
  is called on \<open>h\<close> with the two keyword arguments, on the files the constructor left.
\<close>

lemma then_do_cases:
  "then_do (assign_model lib ckpt) (call_export lib fmt imgsz) s =
     (case YOLO lib ckpt (files s) of
        (Inl d, g) \<Rightarrow>
          (Some (Raised d), s\<lparr>files := g, calls := calls s @ [Call_YOLO ckpt]\<rparr>)
      | (Inr h, g) \<Rightarrow>
          (case export lib h [(''format'', PyStr fmt), (''imgsz'', PyInt imgsz)] g of
             (Inl d, g') \<Rightarrow>
               (Some (Raised d),
                s\<lparr>files := g', model := Some h,
                  calls := calls s @ [Call_YOLO ckpt,
                    Call_export h [(''format'', PyStr fmt), (''imgsz'', PyInt imgsz)]]\<rparr>)
           | (Inr r, g') \<Rightarrow>
               (None,
                s\<lparr>files := g', model := Some h,
                  calls := calls s @ [Call_YOLO ckpt,
                    Call_export h [(''format'', PyStr fmt), (''imgsz'', PyInt imgsz)]]\<rparr>)))"
  by (simp add: then_do_def assign_model_def call_export_def split: prod.splits sum.splits)

lemma run_load_fails:
  assumes "YOLO lib ''yolo26n.pt'' fs = (Inl d, g)"
  shows "run lib i fs =
    (Some (Raised d),
     \<lparr>invoked = i, files = g, model = None, calls = [Call_YOLO ''yolo26n.pt'']\<rparr>)"
  using assms by (simp add: run_def script_def then_do_cases spawn_def)

lemma run_export_fails:
  assumes "YOLO lib ''yolo26n.pt'' fs = (Inr h, g)"
    and "export lib h [(''format'', PyStr ''coreml''), (''imgsz'', PyInt 640)] g = (Inl d, g')"
  shows "run lib i fs =
    (Some (Raised d),
     \<lparr>invoked = i, files = g', model = Some h,
      calls = [Call_YOLO ''yolo26n.pt'',
               Call_export h [(''format'', PyStr ''coreml''), (''imgsz'', PyInt 640)]]\<rparr>)"
  using assms by (simp add: run_def script_def then_do_cases spawn_def)

lemma run_completes:
  assumes "YOLO lib ''yolo26n.pt'' fs = (Inr h, g)"
    and "export lib h [(''format'', PyStr ''coreml''), (''imgsz'', PyInt 640)] g = (Inr r, g')"
  shows "run lib i fs =
    (None,
     \<lparr>invoked = i, files = g', model = Some h,
      calls = [Call_YOLO ''yolo26n.pt'',
               Call_export h [(''format'', PyStr ''coreml''), (''imgsz'', PyInt 640)]]\<rparr>)"
  using assms by (simp add: run_def script_def then_do_cases spawn_def)


text \<open>What a run leaves on the file system, and how it ends.\<close>

lemma run_files:
  "files (snd (run lib i fs)) =
     (case YOLO lib ''yolo26n.pt'' fs of
        (Inl d, g) \<Rightarrow> g
      | (Inr h, g) \<Rightarrow>
          snd (export lib h [(''format'', PyStr ''coreml''), (''imgsz'', PyInt 640)] g))"
  by (simp add: run_def script_def then_do_cases spawn_def split: prod.splits sum.splits)

lemma run_outcome:
  "fst (run lib i fs) =
     (case YOLO lib ''yolo26n.pt'' fs of
        (Inl d, g) \<Rightarrow> Some (Raised d)
      | (Inr h, g) \<Rightarrow>
          (case fst (export lib h [(''format'', PyStr ''coreml''), (''imgsz'', PyInt 640)] g) of
             Inl d \<Rightarrow> Some (Raised d)
           | Inr r \<Rightarrow> None))"
  by (simp add: run_def script_def then_do_cases spawn_def split: prod.splits sum.splits)

lemma run_calls:
  "calls (snd (run lib i fs)) =
     (case YOLO lib ''yolo26n.pt'' fs of
        (Inl d, g) \<Rightarrow> [Call_YOLO ''yolo26n.pt'']
      | (Inr h, g) \<Rightarrow>
          [Call_YOLO ''yolo26n.pt'',
           Call_export h [(''format'', PyStr ''coreml''), (''imgsz'', PyInt 640)]])"
  by (simp add: run_def script_def then_do_cases spawn_def split: prod.splits sum.splits)




text \<open>The stand-in libraries on the concrete file systems.\<close>

lemma stub_no_files:
  "YOLO stub_library ''yolo26n.pt'' no_files =
     (Inl ''FileNotFoundError: yolo26n.pt'', no_files)"
  by (simp add: stub_library_def no_files_def)

lemma stub_checkpoint_only:
  "YOLO stub_library ''yolo26n.pt'' checkpoint_only =
     (Inr (''yolo26n.pt'', ''weights''), checkpoint_only)"
  by (simp add: stub_library_def checkpoint_only_def)

lemma stub_empty_checkpoint:
  "YOLO stub_library ''yolo26n.pt'' empty_checkpoint =
     (Inr (''yolo26n.pt'', []), empty_checkpoint)"
  by (simp add: stub_library_def empty_checkpoint_def)

lemma stub_export_weights:
  "export stub_library (''yolo26n.pt'', ''weights'')
     [(''format'', PyStr ''coreml''), (''imgsz'', PyInt 640)] g =
     (Inr ''yolo26n.mlpackage'', g(''yolo26n.mlpackage'' \<mapsto> ''coreml:weights''))"
  by (simp add: stub_library_def stem_def)

lemma stub_export_empty:
  "export stub_library (''yolo26n.pt'', [])
     [(''format'', PyStr ''coreml''), (''imgsz'', PyInt 640)] g =
     (Inl ''RuntimeError: empty checkpoint'', g)"
  by (simp add: stub_library_def)







section \<open>The claims\<close>

text \<open>
  C1, as amended. A run in which the constructor returns a model object \<open>h\<close> makes
  exactly two library calls, in this order: the constructor on the checkpoint path,
  then \<open>export\<close> on \<open>h\<close> with exactly the two keyword arguments \<open>format\<close> and \<open>imgsz\<close>.
  The global \<open>model\<close> is \<open>h\<close> when the run ends, the export statement leaves the
  binding as it finds it on any state, and what \<open>export\<close> returns is dropped: a library
  that returns something else there gives the same run. A run in which the constructor
  raises makes that one call only, and \<open>model\<close> stays unbound.
\<close>

theorem run_makes_two_calls_when_loaded:
  fixes lib :: "('h, 'r) library" and f :: "'r \<Rightarrow> 'q"
  shows "(YOLO lib ''yolo26n.pt'' fs = (Inr h, g) \<longrightarrow>
            calls (snd (run lib i fs)) =
              [Call_YOLO ''yolo26n.pt'',
               Call_export h [(''format'', PyStr ''coreml''), (''imgsz'', PyInt 640)]]
          \<and> model (snd (run lib i fs)) = Some h
          \<and> run \<lparr>YOLO = YOLO lib,
                  export = (\<lambda>h kw g. (map_sum id f (fst (export lib h kw g)),
                                       snd (export lib h kw g)))\<rparr> i fs
              = run lib i fs)
       \<and> (YOLO lib ''yolo26n.pt'' fs = (Inl d, g) \<longrightarrow>
            calls (snd (run lib i fs)) = [Call_YOLO ''yolo26n.pt'']
          \<and> model (snd (run lib i fs)) = None)
       \<and> model (snd (call_export lib ''coreml'' 640 s)) = model s"
proof (intro conjI impI)
  assume load: "YOLO lib ''yolo26n.pt'' fs = (Inr h, g)"
  obtain b g' where ex: "export lib h [(''format'', PyStr ''coreml''), (''imgsz'', PyInt 640)] g = (b, g')"
    by (cases "export lib h [(''format'', PyStr ''coreml''), (''imgsz'', PyInt 640)] g")
  show "calls (snd (run lib i fs)) =
      [Call_YOLO ''yolo26n.pt'',
       Call_export h [(''format'', PyStr ''coreml''), (''imgsz'', PyInt 640)]]"
    using load ex by (cases b) (simp_all add: run_export_fails run_completes)
  show "model (snd (run lib i fs)) = Some h"
    using load ex by (cases b) (simp_all add: run_export_fails run_completes)
  show "run \<lparr>YOLO = YOLO lib,
             export = (\<lambda>h kw g. (map_sum id f (fst (export lib h kw g)),
                                  snd (export lib h kw g)))\<rparr> i fs
        = run lib i fs"
    using load ex
    by (cases b) (simp_all add: run_def script_def then_do_cases spawn_def)
next
  assume "YOLO lib ''yolo26n.pt'' fs = (Inl d, g)"
  then show "calls (snd (run lib i fs)) = [Call_YOLO ''yolo26n.pt'']"
    and "model (snd (run lib i fs)) = None"
    by (simp_all add: run_load_fails)
next
  show "model (snd (call_export lib ''coreml'' 640 s)) = model s"
    by (simp add: call_export_def Let_def split: option.splits prod.splits sum.splits)
qed

theorem run_makes_two_calls_when_loaded_witness:
  "calls (snd (run stub_library command_line checkpoint_only)) =
     [Call_YOLO ''yolo26n.pt'',
      Call_export (''yolo26n.pt'', ''weights'')
        [(''format'', PyStr ''coreml''), (''imgsz'', PyInt 640)]]
   \<and> model (snd (run stub_library command_line checkpoint_only)) =
       Some (''yolo26n.pt'', ''weights'')
   \<and> calls (snd (run stub_library command_line no_files)) = [Call_YOLO ''yolo26n.pt'']
   \<and> model (snd (run stub_library command_line no_files)) = None"
  using run_makes_two_calls_when_loaded
          [where lib = stub_library and fs = checkpoint_only and i = command_line
             and h = "(''yolo26n.pt'', ''weights'')" and g = checkpoint_only
             and f = length and s = "spawn command_line no_files"]
        run_makes_two_calls_when_loaded
          [where lib = stub_library and fs = no_files and i = command_line
             and d = "''FileNotFoundError: yolo26n.pt''" and g = no_files
             and f = length and s = "spawn command_line no_files"]
  by (simp add: stub_checkpoint_only stub_no_files)

text \<open>
  C1 as stated fails: with no checkpoint file the constructor raises, and the run has
  made one library call, not two.
\<close>

theorem one_call_when_checkpoint_missing:
  "fst (run stub_library command_line no_files) =
     Some (Raised ''FileNotFoundError: yolo26n.pt'')
   \<and> calls (snd (run stub_library command_line no_files)) = [Call_YOLO ''yolo26n.pt'']
   \<and> length (calls (snd (run stub_library command_line no_files))) \<noteq> 2"
  by (simp add: run_load_fails [OF stub_no_files])

text \<open>
  C2. An exception of the constructor or of \<open>export\<close> reaches the top level as the
  library raised it, with its diagnostic unchanged, and the exit status is not 0; the
  failing call was made once and no call follows it. A run in which both calls return
  exits with status 0.
\<close>

theorem library_failure_ends_run:
  "(YOLO lib ''yolo26n.pt'' fs = (Inl d, g) \<longrightarrow>
      fst (run lib i fs) = Some (Raised d)
    \<and> exit_status (fst (run lib i fs)) \<noteq> 0
    \<and> calls (snd (run lib i fs)) = [Call_YOLO ''yolo26n.pt''])
 \<and> (YOLO lib ''yolo26n.pt'' fs = (Inr h, g)
    \<and> export lib h [(''format'', PyStr ''coreml''), (''imgsz'', PyInt 640)] g = (Inl d, g')
    \<longrightarrow>
      fst (run lib i fs) = Some (Raised d)
    \<and> exit_status (fst (run lib i fs)) \<noteq> 0
    \<and> calls (snd (run lib i fs)) =
        [Call_YOLO ''yolo26n.pt'',
         Call_export h [(''format'', PyStr ''coreml''), (''imgsz'', PyInt 640)]])
 \<and> (YOLO lib ''yolo26n.pt'' fs = (Inr h, g)
    \<and> export lib h [(''format'', PyStr ''coreml''), (''imgsz'', PyInt 640)] g = (Inr r, g')
    \<longrightarrow>
      fst (run lib i fs) = None
    \<and> exit_status (fst (run lib i fs)) = 0)"
  by (simp add: run_load_fails run_export_fails run_completes exit_status_def)

theorem library_failure_ends_run_witness:
  "fst (run stub_library command_line no_files) =
     Some (Raised ''FileNotFoundError: yolo26n.pt'')
   \<and> exit_status (fst (run stub_library command_line no_files)) \<noteq> 0
   \<and> fst (run stub_library command_line empty_checkpoint) =
       Some (Raised ''RuntimeError: empty checkpoint'')
   \<and> exit_status (fst (run stub_library command_line empty_checkpoint)) \<noteq> 0
   \<and> fst (run stub_library command_line checkpoint_only) = None
   \<and> exit_status (fst (run stub_library command_line checkpoint_only)) = 0"
proof -
  note a = library_failure_ends_run
      [where lib = stub_library and fs = no_files and i = command_line
         and d = "''FileNotFoundError: yolo26n.pt''" and g = no_files,
       THEN conjunct1, THEN mp, OF stub_no_files]
  note b = library_failure_ends_run
      [where lib = stub_library and fs = empty_checkpoint and i = command_line
         and h = "(''yolo26n.pt'', [])" and g = empty_checkpoint
         and d = "''RuntimeError: empty checkpoint''" and g' = empty_checkpoint,
       THEN conjunct2, THEN conjunct1, THEN mp,
       OF conjI [OF stub_empty_checkpoint stub_export_empty]]
  note c = library_failure_ends_run
      [where lib = stub_library and fs = checkpoint_only and i = command_line
         and h = "(''yolo26n.pt'', ''weights'')" and g = checkpoint_only
         and r = "''yolo26n.mlpackage''"
         and g' = "checkpoint_only(''yolo26n.mlpackage'' \<mapsto> ''coreml:weights'')",
       THEN conjunct2, THEN conjunct2, THEN mp,
       OF conjI [OF stub_checkpoint_only stub_export_weights]]
  from a b c show ?thesis by blast
qed








text \<open>
  C6. The module checks none of its three values before it hands them to the library.
  With any checkpoint path, format string and image size in place of the literals (an
  empty format and a size that is not positive included), the constructor is called on
  the path as it is, and when it returns, \<open>export\<close> is called with the format and the
  size as they are. The run raises exactly when one of these two calls raises, never
  with an exception of the module's own (a \<open>NameError\<close>).
\<close>

theorem values_reach_library_unchecked:
  "(fst (then_do (assign_model lib ckpt) (call_export lib fmt imgsz) (spawn i fs)) \<noteq> None
      \<longleftrightarrow>
        isl (fst (YOLO lib ckpt fs))
      \<or> (\<exists>h. fst (YOLO lib ckpt fs) = Inr h
            \<and> isl (fst (export lib h [(''format'', PyStr fmt), (''imgsz'', PyInt imgsz)]
                        (snd (YOLO lib ckpt fs))))))
   \<and> fst (then_do (assign_model lib ckpt) (call_export lib fmt imgsz) (spawn i fs))
       \<noteq> Some (NameError n)
   \<and> hd (calls (snd (then_do (assign_model lib ckpt) (call_export lib fmt imgsz)
          (spawn i fs)))) = Call_YOLO ckpt
   \<and> (fst (YOLO lib ckpt fs) = Inr h \<longrightarrow>
        calls (snd (then_do (assign_model lib ckpt) (call_export lib fmt imgsz)
          (spawn i fs))) =
          [Call_YOLO ckpt, Call_export h [(''format'', PyStr fmt), (''imgsz'', PyInt imgsz)]])"
proof (cases "YOLO lib ckpt fs")
  case (Pair a g)
  show ?thesis
  proof (cases a)
    case (Inl d)
    with Pair show ?thesis
      by (simp add: then_do_cases spawn_def)
  next
    case (Inr h')
    obtain b g' where
      "export lib h' [(''format'', PyStr fmt), (''imgsz'', PyInt imgsz)] g = (b, g')"
      by (cases "export lib h' [(''format'', PyStr fmt), (''imgsz'', PyInt imgsz)] g")
    with Pair Inr show ?thesis
      by (cases b) (auto simp add: then_do_cases spawn_def)
  qed
qed

theorem values_reach_library_unchecked_witness:
  "calls (snd (then_do (assign_model stub_library ''yolo26n.pt'')
       (call_export stub_library [] (- 1)) (spawn command_line checkpoint_only))) =
     [Call_YOLO ''yolo26n.pt'',
      Call_export (''yolo26n.pt'', ''weights'') [(''format'', PyStr []), (''imgsz'', PyInt (- 1))]]
   \<and> fst (YOLO stub_library ''yolo26n.pt'' checkpoint_only) = Inr (''yolo26n.pt'', ''weights'')"
proof -
  have loaded:
    "fst (YOLO stub_library ''yolo26n.pt'' checkpoint_only) = Inr (''yolo26n.pt'', ''weights'')"
    by (simp add: stub_checkpoint_only)
  note values_reach_library_unchecked
      [where lib = stub_library and ckpt = "''yolo26n.pt''" and fmt = "[]" and imgsz = "- 1"
         and i = command_line and fs = checkpoint_only and h = "(''yolo26n.pt'', ''weights'')",
       THEN conjunct2, THEN conjunct2, THEN conjunct2, THEN mp, OF loaded]
  with loaded show ?thesis by blast
qed






text \<open>
  C9. The module body is not guarded by a test of \<open>__name__\<close>: executed under any
  module name, as an import does, it runs as it does under \<open>"__main__"\<close>. The
  constructor is called, and when it returns, \<open>export\<close> is called and the files are
  those \<open>export\<close> leaves.
\<close>

theorem import_executes_body:
  "fst (run lib (i\<lparr>dunder_name := n\<rparr>) fs) =
     fst (run lib (i\<lparr>dunder_name := ''__main__''\<rparr>) fs)
   \<and> calls (snd (run lib (i\<lparr>dunder_name := n\<rparr>) fs)) =
       calls (snd (run lib (i\<lparr>dunder_name := ''__main__''\<rparr>) fs))
   \<and> files (snd (run lib (i\<lparr>dunder_name := n\<rparr>) fs)) =
       files (snd (run lib (i\<lparr>dunder_name := ''__main__''\<rparr>) fs))
   \<and> hd (calls (snd (run lib (i\<lparr>dunder_name := n\<rparr>) fs))) = Call_YOLO ''yolo26n.pt''
   \<and> (YOLO lib ''yolo26n.pt'' fs = (Inr h, g) \<longrightarrow>
        Call_export h [(''format'', PyStr ''coreml''), (''imgsz'', PyInt 640)]
          \<in> set (calls (snd (run lib (i\<lparr>dunder_name := n\<rparr>) fs)))
      \<and> files (snd (run lib (i\<lparr>dunder_name := n\<rparr>) fs)) =
          snd (export lib h [(''format'', PyStr ''coreml''), (''imgsz'', PyInt 640)] g))"
  by (simp add: run_outcome run_calls run_files split: prod.splits sum.splits)

theorem import_executes_body_witness:
  "YOLO stub_library ''yolo26n.pt'' checkpoint_only =
     (Inr (''yolo26n.pt'', ''weights''), checkpoint_only)
   \<and> Call_export (''yolo26n.pt'', ''weights'')
        [(''format'', PyStr ''coreml''), (''imgsz'', PyInt 640)]
       \<in> set (calls (snd (run stub_library
            (command_line\<lparr>dunder_name := ''export_coreml''\<rparr>) checkpoint_only)))
   \<and> files (snd (run stub_library
        (command_line\<lparr>dunder_name := ''export_coreml''\<rparr>) checkpoint_only))
        ''yolo26n.mlpackage'' = Some ''coreml:weights''"
proof -
  note body = import_executes_body
      [where lib = stub_library and i = command_line and fs = checkpoint_only
         and n = "''export_coreml''" and h = "(''yolo26n.pt'', ''weights'')"
         and g = checkpoint_only,
       THEN conjunct2, THEN conjunct2, THEN conjunct2, THEN conjunct2, THEN mp,
       OF stub_checkpoint_only]
  from body stub_checkpoint_only show ?thesis
    by (simp add: stub_export_weights)
qed

text \<open>
  C10. The arguments of every \<open>export\<close> call a run makes meet the data model's two
  invariants: the format string is not empty and the image size is positive.
\<close>

theorem export_arguments_meet_invariants:
  assumes "Call_export h kw \<in> set (calls (snd (run lib i fs)))"
  shows "\<exists>f n. kw = [(''format'', PyStr f), (''imgsz'', PyInt n)] \<and> f \<noteq> [] \<and> 0 < n"
proof (cases "YOLO lib ''yolo26n.pt'' fs")
  case (Pair a g)
  show ?thesis
  proof (cases a)
    case (Inl d)
    with Pair assms show ?thesis by (simp add: run_calls)
  next
    case (Inr h')
    with Pair assms
    have "kw = [(''format'', PyStr ''coreml''), (''imgsz'', PyInt 640)]"
      by (simp add: run_calls)
    then show ?thesis by simp
  qed
qed

theorem export_arguments_meet_invariants_witness:
  "Call_export (''yolo26n.pt'', ''weights'')
      [(''format'', PyStr ''coreml''), (''imgsz'', PyInt 640)]
     \<in> set (calls (snd (run stub_library command_line checkpoint_only)))
   \<and> (\<exists>f n. [(''format'', PyStr ''coreml''), (''imgsz'', PyInt 640)] =
               [(''format'', PyStr f), (''imgsz'', PyInt n)] \<and> f \<noteq> [] \<and> 0 < n)"
proof -
  have made: "Call_export (''yolo26n.pt'', ''weights'')
      [(''format'', PyStr ''coreml''), (''imgsz'', PyInt 640)]
     \<in> set (calls (snd (run stub_library command_line checkpoint_only)))"
    by (simp add: run_completes [OF stub_checkpoint_only stub_export_weights])
  from made export_arguments_meet_invariants [OF made] show ?thesis by blast
qed

end
